theory Spec2Isabelle
  imports Main
begin

section \<open>The Sphinx configuration module \<^verbatim>\<open>docs/conf.py\<close> of pgcopydb\<close>

text \<open>
  The module is a sequence of top-level statements: assignments of literals to module
  globals, two imports, one class statement and one assignment to an attribute of an
  imported class. Each module global is a constant of its Python value (a \<^verbatim>\<open>str\<close> is a
  \<^typ>\<open>string\<close>, a \<^verbatim>\<open>list\<close> a list, a \<^verbatim>\<open>tuple\<close> a tuple, an \<^verbatim>\<open>int\<close> an
  \<^typ>\<open>int\<close>); the load of the module is a function on an explicit interpreter state.
\<close>

subsection \<open>Project information (lines 20 to 26)\<close>

definition project :: string where
  "project = ''pgcopydb''"

definition copyright :: string where
  "copyright = ''2022, Dimitri Fontaine''"

definition author :: string where
  "author = ''Dimitri Fontaine''"

definition version :: string where
  "version = ''0.10''"

definition release :: string where
  "release = ''0.10''"

subsection \<open>General configuration and HTML output (lines 34 to 61)\<close>

definition master_doc :: string where
  "master_doc = ''index''"

definition extensions :: "string list" where
  "extensions = []"

definition templates_path :: "string list" where
  "templates_path = [''_templates'']"

definition exclude_patterns :: "string list" where
  "exclude_patterns = [''_build'', ''Thumbs.db'', ''.DS_Store'']"

definition html_theme :: string where
  "html_theme = ''sphinx_rtd_theme''"

definition html_static_path :: "string list" where
  "html_static_path = [''_static'']"

subsection \<open>Manual pages (lines 84 to 150)\<close>

text \<open>
  One tuple per manual page:
  (source start file, name, description, authors, manual section).
  The name \<^verbatim>\<open>author\<close> inside each tuple is the module global assigned on line 22.
\<close>

type_synonym man_page = "string \<times> string \<times> string \<times> string list \<times> int"

fun man_source :: "man_page \<Rightarrow> string" where
  "man_source (source, name, description, authors, section) = source"

fun man_name :: "man_page \<Rightarrow> string" where
  "man_name (source, name, description, authors, section) = name"

fun man_description :: "man_page \<Rightarrow> string" where
  "man_description (source, name, description, authors, section) = description"

fun man_authors :: "man_page \<Rightarrow> string list" where
  "man_authors (source, name, description, authors, section) = authors"

fun man_section :: "man_page \<Rightarrow> int" where
  "man_section (source, name, description, authors, section) = section"

definition man_pages :: "man_page list" where
  "man_pages =
    [ (''ref/pgcopydb'', ''pgcopydb'', ''pgcopydb'', [author], 1),
      (''ref/pgcopydb_config'', ''pgcopydb'', ''pgcopydb'', [author], 5),
      (''ref/pgcopydb_clone'', ''pgcopydb clone'', ''pgcopydb clone'', [author], 1),
      (''ref/pgcopydb_clone'', ''pgcopydb fork'', ''pgcopydb fork'', [author], 1),
      (''ref/pgcopydb_follow'', ''pgcopydb follow'', ''pgcopydb follow'', [author], 1),
      (''ref/pgcopydb_snapshot'', ''pgcopydb snapshot'', ''pgcopydb snapshot'', [author], 1),
      (''ref/pgcopydb_copy'', ''pgcopydb copy'', ''pgcopydb copy'', [author], 1),
      (''ref/pgcopydb_dump'', ''pgcopydb dump'', ''pgcopydb dump'', [author], 1),
      (''ref/pgcopydb_restore'', ''pgcopydb restore'', ''pgcopydb restore'', [author], 1),
      (''ref/pgcopydb_list'', ''pgcopydb list'', ''pgcopydb list'', [author], 1),
      (''ref/pgcopydb_stream'', ''pgcopydb stream'', ''pgcopydb stream'', [author], 1) ]"

text \<open>The key the uniqueness property of the table is about: section, document, name.\<close>

definition man_key :: "man_page \<Rightarrow> int \<times> string \<times> string" where
  "man_key e = (man_section e, man_source e, man_name e)"

text \<open>The entries of the table that are generated from one source document.\<close>

definition entries_of :: "string \<Rightarrow> man_page list" where
  "entries_of source = filter (\<lambda>e. man_source e = source) man_pages"

subsection \<open>The formatter override (lines 67 to 77)\<close>

text \<open>
  Python values as far as the module builds them. A class object is identified by its
  qualified name.
\<close>

datatype pyval =
    PyStr string
  | PyInt int
  | PyList "pyval list"
  | PyTuple "pyval list"
  | PyClass string





subsection \<open>Loading the module\<close>

text \<open>
  The interpreter state the module's statements act on: the module's own namespace, and
  the attributes of the objects of other modules, addressed by the qualified name of the
  object and the name of the attribute.
\<close>

record py_world =
  module_globals :: "string \<rightharpoonup> pyval"
  foreign_attrs :: "string \<times> string \<rightharpoonup> pyval"

definition assign_global :: "string \<Rightarrow> pyval \<Rightarrow> py_world \<Rightarrow> py_world" where
  "assign_global name v w = w\<lparr>module_globals := (module_globals w)(name \<mapsto> v)\<rparr>"

definition setattr_foreign :: "string \<Rightarrow> string \<Rightarrow> pyval \<Rightarrow> py_world \<Rightarrow> py_world" where
  "setattr_foreign obj attr v w = w\<lparr>foreign_attrs := (foreign_attrs w)((obj, attr) \<mapsto> v)\<rparr>"

definition py_str_list :: "string list \<Rightarrow> pyval" where
  "py_str_list xs = PyList (map PyStr xs)"

fun py_man_page :: "man_page \<Rightarrow> pyval" where
  "py_man_page (source, name, description, authors, section) =
     PyTuple [PyStr source, PyStr name, PyStr description, py_str_list authors, PyInt section]"

definition PygmentsBridge :: string where
  "PygmentsBridge = ''sphinx.highlighting.PygmentsBridge''"

definition LatexFormatter :: string where
  "LatexFormatter = ''pygments.formatters.latex.LatexFormatter''"

definition CustomLatexFormatter :: string where
  "CustomLatexFormatter = ''conf.CustomLatexFormatter''"

text \<open>
  The statements of the module in source order. An import binds the imported class in
  the module's namespace (the imports are taken to succeed), the class statement binds
  the new class, and line 77 assigns to the attribute \<^verbatim>\<open>latex_formatter\<close> of the
  imported class \<^verbatim>\<open>PygmentsBridge\<close>.
\<close>

definition conf_load :: "py_world \<Rightarrow> py_world" where
  "conf_load w0 =
     (let w = assign_global ''project'' (PyStr project) w0;
          w = assign_global ''copyright'' (PyStr copyright) w;
          w = assign_global ''author'' (PyStr author) w;
          w = assign_global ''version'' (PyStr version) w;
          w = assign_global ''release'' (PyStr release) w;
          w = assign_global ''master_doc'' (PyStr master_doc) w;
          w = assign_global ''extensions'' (py_str_list extensions) w;
          w = assign_global ''templates_path'' (py_str_list templates_path) w;
          w = assign_global ''exclude_patterns'' (py_str_list exclude_patterns) w;
          w = assign_global ''html_theme'' (PyStr html_theme) w;
          w = assign_global ''html_static_path'' (py_str_list html_static_path) w;
          w = assign_global ''PygmentsBridge'' (PyClass PygmentsBridge) w;
          w = assign_global ''LatexFormatter'' (PyClass LatexFormatter) w;
          w = assign_global ''CustomLatexFormatter'' (PyClass CustomLatexFormatter) w;
          w = setattr_foreign PygmentsBridge ''latex_formatter'' (PyClass CustomLatexFormatter) w;
          w = assign_global ''man_pages'' (PyList (map py_man_page man_pages)) w
      in w)"

subsection \<open>Concrete inputs\<close>

text \<open>
  A state in which Sphinx loads the module: nothing of the module is bound yet, and the
  two formatter attributes of \<^verbatim>\<open>PygmentsBridge\<close> hold the classes Sphinx ships them
  with.
\<close>

definition sphinx_world :: py_world where
  "sphinx_world =
     \<lparr> module_globals = Map.empty,
       foreign_attrs =
         [(PygmentsBridge, ''html_formatter'') \<mapsto> PyClass ''pygments.formatters.html.HtmlFormatter'',
          (PygmentsBridge, ''latex_formatter'') \<mapsto> PyClass LatexFormatter] \<rparr>"


subsection \<open>Glob patterns\<close>

text \<open>The scanner is outside a character class, just behind its opening bracket, just
  behind the negation mark, or inside the class behind at least one member.\<close>

datatype glob_state = Outside | Opened | Negated | Inside

text \<open>
  Modelled from the spec: the spec asks that every exclusion pattern is a syntactically
  valid glob, and the glob grammar is not part of \<^verbatim>\<open>docs/conf.py\<close> (the matcher
  belongs to the documentation generator). The grammar here is the shell-style one of
  that matcher, read strictly: \<^verbatim>\<open>*\<close> and \<^verbatim>\<open>?\<close> are wildcards, \<^verbatim>\<open>[\<close> opens a
  character class, optionally negated by \<^verbatim>\<open>!\<close>, whose first member may be \<^verbatim>\<open>]\<close> and
  which the next \<^verbatim>\<open>]\<close> closes; every other character stands for itself. The scan
  accepts when it ends outside a character class.
\<close>

fun glob_scan :: "glob_state \<Rightarrow> string \<Rightarrow> bool" where
  "glob_scan st [] = (st = Outside)"
| "glob_scan Outside (c # cs) = glob_scan (if c = CHR ''['' then Opened else Outside) cs"
| "glob_scan Opened (c # cs) = glob_scan (if c = CHR ''!'' then Negated else Inside) cs"
| "glob_scan Negated (c # cs) = glob_scan Inside cs"
| "glob_scan Inside (c # cs) = glob_scan (if c = CHR '']'' then Outside else Inside) cs"

text \<open>
  Modelled from the spec: a syntactically valid glob, the validity check being absent
  from \<^verbatim>\<open>docs/conf.py\<close>. A pattern is valid when every character class it opens has a
  member and is closed.
\<close>

definition glob_valid :: "string \<Rightarrow> bool" where
  "glob_valid pattern = glob_scan Outside pattern"

section \<open>Properties of the configuration values\<close>

text \<open>What each kind of statement changes, and what it leaves alone.\<close>

lemma foreign_attrs_assign_global: "foreign_attrs (assign_global name v w) = foreign_attrs w"
  by (simp add: assign_global_def)

lemma foreign_attrs_setattr_foreign:
  "foreign_attrs (setattr_foreign obj attr v w) = (foreign_attrs w)((obj, attr) \<mapsto> v)"
  by (simp add: setattr_foreign_def)

lemma module_globals_assign_global:
  "module_globals (assign_global name v w) = (module_globals w)(name \<mapsto> v)"
  by (simp add: assign_global_def)

lemma module_globals_setattr_foreign:
  "module_globals (setattr_foreign obj attr v w) = module_globals w"
  by (simp add: setattr_foreign_def)

text \<open>The loaded module holds each configuration value under its name.\<close>

lemma conf_load_module_globals:
  "module_globals (conf_load w) ''project'' = Some (PyStr project)"
  "module_globals (conf_load w) ''copyright'' = Some (PyStr copyright)"
  "module_globals (conf_load w) ''author'' = Some (PyStr author)"
  "module_globals (conf_load w) ''version'' = Some (PyStr version)"
  "module_globals (conf_load w) ''release'' = Some (PyStr release)"
  "module_globals (conf_load w) ''master_doc'' = Some (PyStr master_doc)"
  "module_globals (conf_load w) ''extensions'' = Some (py_str_list extensions)"
  "module_globals (conf_load w) ''templates_path'' = Some (py_str_list templates_path)"
  "module_globals (conf_load w) ''exclude_patterns'' = Some (py_str_list exclude_patterns)"
  "module_globals (conf_load w) ''html_theme'' = Some (PyStr html_theme)"
  "module_globals (conf_load w) ''html_static_path'' = Some (py_str_list html_static_path)"
  "module_globals (conf_load w) ''man_pages'' = Some (PyList (map py_man_page man_pages))"
  by (simp_all add: conf_load_def Let_def module_globals_assign_global
      module_globals_setattr_foreign)

lemma man_keys_distinct: "distinct (map man_key man_pages)"
  by (simp add: man_pages_def man_key_def)

text \<open>
  C1. Every entry of \<^const>\<open>man_pages\<close> has manual section 1 or 5, and two entries at
  different positions that have the same section differ in their
  (source document, command name) pair.
\<close>

theorem man_pages_sections_and_pairs:
  "(\<forall>e \<in> set man_pages. man_section e = 1 \<or> man_section e = 5) \<and>
   (\<forall>i < length man_pages. \<forall>j < length man_pages.
      i \<noteq> j \<and> man_section (man_pages ! i) = man_section (man_pages ! j) \<longrightarrow>
      (man_source (man_pages ! i), man_name (man_pages ! i)) \<noteq>
      (man_source (man_pages ! j), man_name (man_pages ! j)))"
proof (intro conjI allI impI)
  show "\<forall>e \<in> set man_pages. man_section e = 1 \<or> man_section e = 5"
    by (simp add: man_pages_def)
next
  fix i j
  assume i: "i < length man_pages" and j: "j < length man_pages"
    and ij: "i \<noteq> j \<and> man_section (man_pages ! i) = man_section (man_pages ! j)"
  from i j have "(map man_key man_pages ! i = map man_key man_pages ! j) = (i = j)"
    by (intro nth_eq_iff_index_eq [OF man_keys_distinct]) simp_all
  with i j ij have "man_key (man_pages ! i) \<noteq> man_key (man_pages ! j)"
    by simp
  with ij show "(man_source (man_pages ! i), man_name (man_pages ! i)) \<noteq>
      (man_source (man_pages ! j), man_name (man_pages ! j))"
    by (simp add: man_key_def)
qed

theorem man_pages_sections_and_pairs_witness:
  "man_section (man_pages ! 1) = 5 \<and>
   (man_source (man_pages ! 2), man_name (man_pages ! 2)) \<noteq>
   (man_source (man_pages ! 3), man_name (man_pages ! 3))"
proof -
  have m: "man_pages ! 1 \<in> set man_pages" by (simp add: man_pages_def)
  have l: "(2::nat) < length man_pages" "(3::nat) < length man_pages"
    by (simp_all add: man_pages_def)
  have s: "(2::nat) \<noteq> 3 \<and> man_section (man_pages ! 2) = man_section (man_pages ! 3)"
    by (simp add: man_pages_def)
  from man_pages_sections_and_pairs m have "man_section (man_pages ! 1) = 1 \<or> man_section (man_pages ! 1) = 5"
    by blast
  moreover have "man_section (man_pages ! 1) \<noteq> 1" by (simp add: man_pages_def)
  moreover from man_pages_sections_and_pairs l s
  have "(man_source (man_pages ! 2), man_name (man_pages ! 2)) \<noteq>
        (man_source (man_pages ! 3), man_name (man_pages ! 3))"
    by blast
  ultimately show ?thesis by blast
qed

text \<open>
  C4. The metadata strings \<^const>\<open>project\<close>, \<^const>\<open>author\<close>, \<^const>\<open>version\<close> and
  \<^const>\<open>release\<close> are non-empty, and the version string equals the release string.
\<close>

theorem metadata_nonempty_and_consistent:
  "project \<noteq> [] \<and> author \<noteq> [] \<and> version \<noteq> [] \<and> release \<noteq> [] \<and> version = release"
  by (simp add: project_def author_def version_def release_def)

text \<open>
  C8. In every entry of \<^const>\<open>man_pages\<close> the description is the same string as the
  command name.
\<close>

theorem man_pages_description_is_name:
  "\<forall>e \<in> set man_pages. man_description e = man_name e"
  by (simp add: man_pages_def)

theorem man_pages_description_is_name_witness:
  "man_description (man_pages ! 3) = ''pgcopydb fork'' \<and> man_name (man_pages ! 3) = ''pgcopydb fork''"
proof -
  have "man_pages ! 3 \<in> set man_pages" by (simp add: man_pages_def)
  with man_pages_description_is_name
  have "man_description (man_pages ! 3) = man_name (man_pages ! 3)" by blast
  moreover have "man_name (man_pages ! 3) = ''pgcopydb fork''" by (simp add: man_pages_def)
  ultimately show ?thesis by simp
qed

text \<open>
  C9. The module-level author string is \<^verbatim>\<open>Dimitri Fontaine\<close>, and the author list of every
  entry of \<^const>\<open>man_pages\<close> is the one-element list holding that string.
\<close>

theorem man_pages_authors:
  "author = ''Dimitri Fontaine'' \<and> (\<forall>e \<in> set man_pages. man_authors e = [author])"
  by (simp add: man_pages_def author_def)

theorem man_pages_authors_witness:
  "man_authors (man_pages ! 1) = [''Dimitri Fontaine'']"
proof -
  have "man_pages ! 1 \<in> set man_pages" by (simp add: man_pages_def)
  with man_pages_authors have "man_authors (man_pages ! 1) = [author]" by blast
  with man_pages_authors show ?thesis by simp
qed

text \<open>
  C10. The source documents of \<^const>\<open>man_pages\<close> are not pairwise different: the document
  \<^verbatim>\<open>ref/pgcopydb_clone\<close> has exactly two entries, the pages \<^verbatim>\<open>pgcopydb clone\<close> and
  \<^verbatim>\<open>pgcopydb fork\<close>, and every other source document of the table has exactly one.
\<close>

theorem man_pages_clone_is_the_only_shared_source:
  "\<not> distinct (map man_source man_pages) \<and>
   length (entries_of ''ref/pgcopydb_clone'') = 2 \<and>
   map man_name (entries_of ''ref/pgcopydb_clone'') = [''pgcopydb clone'', ''pgcopydb fork''] \<and>
   (\<forall>e \<in> set man_pages.
      man_source e \<noteq> ''ref/pgcopydb_clone'' \<longrightarrow> length (entries_of (man_source e)) = 1)"
  by (simp add: man_pages_def entries_of_def)

theorem man_pages_clone_is_the_only_shared_source_witness:
  "man_source (man_pages ! 1) = ''ref/pgcopydb_config'' \<and>
   length (entries_of ''ref/pgcopydb_config'') = 1"
proof -
  have m: "man_pages ! 1 \<in> set man_pages" by (simp add: man_pages_def)
  have s: "man_source (man_pages ! 1) = ''ref/pgcopydb_config''" by (simp add: man_pages_def)
  then have n: "man_source (man_pages ! 1) \<noteq> ''ref/pgcopydb_clone''" by simp
  from man_pages_clone_is_the_only_shared_source m n
  have "length (entries_of (man_source (man_pages ! 1))) = 1" by blast
  with s show ?thesis by simp
qed

text \<open>
  C7. The list of enabled extensions is empty, and it is the empty list that the loaded
  module holds under the name \<^verbatim>\<open>extensions\<close>.
\<close>

theorem extensions_empty:
  "extensions = [] \<and> module_globals (conf_load w) ''extensions'' = Some (PyList [])"
  by (simp add: conf_load_module_globals extensions_def py_str_list_def)

text \<open>
  The grammar rejects a character class that is left open or has no member, and accepts
  wildcards and closed classes.
\<close>

lemma glob_valid_rejects_open_class:
  "\<not> glob_valid ''[abc'' \<and> \<not> glob_valid ''x[]'' \<and> glob_valid ''[!]a]*.py'' \<and> glob_valid ''**/_build/?''"
  by (simp add: glob_valid_def)

text \<open>
  C6. No two entries of \<^const>\<open>exclude_patterns\<close> are equal, and every entry is a
  syntactically valid glob pattern.
\<close>

theorem exclude_patterns_distinct_and_valid:
  "distinct exclude_patterns \<and> (\<forall>pattern \<in> set exclude_patterns. glob_valid pattern)"
  by (simp add: exclude_patterns_def glob_valid_def)

theorem exclude_patterns_distinct_and_valid_witness:
  "''.DS_Store'' \<in> set exclude_patterns \<and> glob_valid ''.DS_Store''"
proof -
  have m: "''.DS_Store'' \<in> set exclude_patterns" by (simp add: exclude_patterns_def)
  with exclude_patterns_distinct_and_valid have "glob_valid ''.DS_Store''" by blast
  with m show ?thesis by simp
qed

section \<open>Effects of loading the module\<close>

text \<open>
  C2, as the spec states it: the load leaves every attribute of every imported object
  as it was. It does not: loaded in the state Sphinx provides, the module replaces the
  class bound to \<^verbatim>\<open>PygmentsBridge.latex_formatter\<close>.
\<close>

theorem conf_load_not_side_effect_free:
  "foreign_attrs (conf_load sphinx_world) (PygmentsBridge, ''latex_formatter'') \<noteq>
   foreign_attrs sphinx_world (PygmentsBridge, ''latex_formatter'')"
  by (simp add: conf_load_def Let_def foreign_attrs_assign_global foreign_attrs_setattr_foreign
      sphinx_world_def LatexFormatter_def CustomLatexFormatter_def)

text \<open>
  C2, amended. Outside the module's own namespace the load changes exactly one binding:
  the attribute \<^verbatim>\<open>latex_formatter\<close> of the imported class \<^verbatim>\<open>PygmentsBridge\<close> is set to
  the class \<^verbatim>\<open>CustomLatexFormatter\<close>; every other attribute of an imported object is
  as before the load.
\<close>

theorem conf_load_writes_latex_formatter_only:
  "foreign_attrs (conf_load w) =
     (foreign_attrs w)((PygmentsBridge, ''latex_formatter'') \<mapsto> PyClass CustomLatexFormatter)"
  by (simp add: conf_load_def Let_def foreign_attrs_assign_global foreign_attrs_setattr_foreign)



end
